theory Spec2Isabelle
  imports Main "HOL-Library.Word"
begin

section \<open>The Strapi client of src/lib/strapi.ts\<close>

text \<open>
  The module reads two settings and three mode flags from \<^verbatim>\<open>import.meta.env\<close>, talks to
  the network through \<^verbatim>\<open>fetch\<close>, parses addresses with \<^verbatim>\<open>new URL\<close> and writes files
  through Node's \<^verbatim>\<open>fs\<close> and \<^verbatim>\<open>path\<close>. The settings are a record, the platform is a
  record of oracles (what each call answers), the file system is an explicit state, and
  every function returns the trace of what it printed and requested next to its value.
\<close>

subsection \<open>JavaScript values\<close>

text \<open>
  An argument of type \<^verbatim>\<open>string | undefined | null\<close>. A result of type
  \<^verbatim>\<open>string | null\<close> is a \<open>string option\<close>, \<open>None\<close> for \<^verbatim>\<open>null\<close>.
\<close>

datatype jsarg = Undefined | Null | Str string

text \<open>A setting read from the environment: \<open>None\<close> is \<^verbatim>\<open>undefined\<close>.\<close>

type_synonym setting = "string option"

text \<open>\<^verbatim>\<open>!s\<close> is false exactly for a non-empty string.\<close>

fun truthy :: "setting \<Rightarrow> bool" where
  "truthy None = False"
| "truthy (Some s) = (s \<noteq> [])"

text \<open>A setting inside a template literal: \<^verbatim>\<open>undefined\<close> prints as the word.\<close>

fun tmpl :: "setting \<Rightarrow> string" where
  "tmpl None = ''undefined''"
| "tmpl (Some s) = s"

text \<open>\<^verbatim>\<open>s.startsWith(p)\<close>\<close>

definition startsWith :: "string \<Rightarrow> string \<Rightarrow> bool" where
  "startsWith s p = (take (length p) s = p)"

text \<open>\<^verbatim>\<open>s.split('/')\<close>: never empty, one more piece than there are slashes.\<close>

fun split_slash :: "string \<Rightarrow> string list" where
  "split_slash [] = [[]]"
| "split_slash (c # cs) =
     (if c = CHR ''/'' then [] # split_slash cs
      else (case split_slash cs of
              [] \<Rightarrow> [[c]]
            | p # ps \<Rightarrow> (c # p) # ps))"

text \<open>\<^verbatim>\<open>xs.pop()\<close>: the last element, \<^verbatim>\<open>undefined\<close> (\<open>None\<close>) on an empty array.\<close>

fun pop :: "'a list \<Rightarrow> 'a option" where
  "pop [] = None"
| "pop [x] = Some x"
| "pop (x # y # ys) = pop (y # ys)"

text \<open>
  A parsed response body. The module hands it on as it is and never looks at a number,
  so numbers are kept as integers.
\<close>

datatype json =
    JNull
  | JBool bool
  | JNum int
  | JStr string
  | JArr "json list"
  | JObj "(string \<times> json) list"

text \<open>The two literals the fetchers fall back to.\<close>

definition empty_collection :: json where
  "empty_collection = JObj [(''data'', JArr []), (''meta'', JObj [])]"

definition null_single :: json where
  "null_single = JObj [(''data'', JNull), (''meta'', JObj [])]"

subsection \<open>Settings\<close>

text \<open>
  \<^verbatim>\<open>import.meta.env\<close>: the two settings and the flags \<^verbatim>\<open>DEV\<close>, \<^verbatim>\<open>PROD\<close>
  (written \<open>PROD'\<close>: the plain name is taken by the product notation) and \<^verbatim>\<open>MODE\<close>.
\<close>

record env =
  STRAPI_URL :: setting
  STRAPI_TOKEN :: setting
  DEV :: bool
  PROD' :: bool
  MODE :: string

subsection \<open>getStrapiMedia\<close>

fun getStrapiMedia :: "env \<Rightarrow> jsarg \<Rightarrow> string option" where
  "getStrapiMedia e Undefined = None"
| "getStrapiMedia e Null = None"
| "getStrapiMedia e (Str url) =
     (if url = [] then None
      else if startsWith url ''http'' then Some url
      else if \<not> truthy (STRAPI_URL e) then None
      else Some (tmpl (STRAPI_URL e) @ url))"

text \<open>A result handed back in as an argument.\<close>

fun as_arg :: "string option \<Rightarrow> jsarg" where
  "as_arg None = Null"
| "as_arg (Some s) = Str s"

subsection \<open>The platform\<close>

text \<open>
  What the code catches: an \<^verbatim>\<open>Error\<close> it built itself, the \<^verbatim>\<open>TimeoutError\<close> of
  \<^verbatim>\<open>AbortSignal.timeout\<close>, or anything else the platform throws, by name.
\<close>

datatype exn = Error string | TimeoutError | Thrown string

text \<open>
  A promise of the platform either settles, some milliseconds after the request was
  issued and with an exception or a value, or stays pending for ever.
\<close>

datatype 'a promise = Settles nat "exn + 'a" | Never

text \<open>
  \<^verbatim>\<open>await\<close> under \<^verbatim>\<open>AbortSignal.timeout(limit)\<close>: what has not settled before the
  limit is aborted and throws.
\<close>

fun await_until :: "nat \<Rightarrow> 'a promise \<Rightarrow> exn + 'a" where
  "await_until limit Never = Inl TimeoutError"
| "await_until limit (Settles t r) = (if t < limit then r else Inl TimeoutError)"

text \<open>\<^verbatim>\<open>await\<close> with no signal: \<open>None\<close> when the promise never settles.\<close>

fun await_plain :: "'a promise \<Rightarrow> (exn + 'a) option" where
  "await_plain Never = None"
| "await_plain (Settles t r) = Some r"

type_synonym byte = "8 word"

record response =
  status :: nat
  statusText :: string
  json_body :: "json promise"
  array_buffer :: "byte list promise"

text \<open>\<^verbatim>\<open>response.ok\<close>, as the Fetch standard defines it.\<close>

definition ok :: "response \<Rightarrow> bool" where
  "ok r = (200 \<le> status r \<and> status r \<le> 299)"

type_synonym headers = "(string \<times> string) list"

text \<open>
  The platform's answers: \<open>fetch\<close> for an address and headers; \<open>url_pathname u\<close> for
  \<^verbatim>\<open>new URL(u).pathname\<close>; \<open>import_node\<close> for the two dynamic imports (an
  exception when the modules cannot be loaded); \<open>process_cwd\<close>; \<open>path_join\<close>;
  \<open>dirs_above p\<close> for the directories on the way down to the path \<open>p\<close>; and
  whether \<^verbatim>\<open>mkdirSync\<close> and \<^verbatim>\<open>writeFileSync\<close> throw at a path.
\<close>

record world =
  fetch :: "string \<Rightarrow> headers \<Rightarrow> response promise"
  url_pathname :: "string \<Rightarrow> exn + string"
  import_node :: "exn option"
  process_cwd :: "exn + string"
  path_join :: "string list \<Rightarrow> string"
  dirs_above :: "string \<Rightarrow> string list"
  mkdir_error :: "string \<Rightarrow> exn option"
  write_error :: "string \<Rightarrow> exn option"

record filesystem =
  dirs :: "string set"
  files :: "string \<Rightarrow> byte list option"

text \<open>\<^verbatim>\<open>fs.existsSync(p)\<close>\<close>

definition existsSync :: "filesystem \<Rightarrow> string \<Rightarrow> bool" where
  "existsSync fs p = (p \<in> dirs fs \<or> files fs p \<noteq> None)"

subsection \<open>What a call leaves behind\<close>

text \<open>
  A printed line is a list of pieces: literal text, a number, the caught exception, or
  the item count \<^verbatim>\<open>data?.data?.length || 0\<close> of a parsed body (kept as the body).
\<close>

datatype piece = Lit string | Num nat | Caught exn | ItemCount json

datatype event =
    ConsoleLog "piece list"
  | ConsoleWarn "piece list"
  | ConsoleError "piece list"
  | HttpGet string headers "nat option"
  | MkdirSync string
  | WriteFileSync string "byte list"

fun is_network :: "event \<Rightarrow> bool" where
  "is_network (HttpGet u h t) = True"
| "is_network ev = False"

fun is_fs_write :: "event \<Rightarrow> bool" where
  "is_fs_write (MkdirSync p) = True"
| "is_fs_write (WriteFileSync p b) = True"
| "is_fs_write ev = False"

text \<open>The symbols the messages start with, as UTF-8.\<close>

definition info_sign :: string where
  "info_sign = [CHR 0xE2, CHR 0x84, CHR 0xB9, CHR 0xEF, CHR 0xB8, CHR 0x8F]"

definition check_mark :: string where
  "check_mark = [CHR 0xE2, CHR 0x9C, CHR 0x93]"

definition cross_mark :: string where
  "cross_mark = [CHR 0xE2, CHR 0x9D, CHR 0x8C]"

definition arrow_sign :: string where
  "arrow_sign = [CHR 0xE2, CHR 0x86, CHR 0x92]"

definition warning_sign :: string where
  "warning_sign = [CHR 0xE2, CHR 0x9A, CHR 0xA0, CHR 0xEF, CHR 0xB8, CHR 0x8F]"

subsection \<open>fetchStrapi and fetchStrapiSingle\<close>

definition request_headers :: "env \<Rightarrow> headers" where
  "request_headers e =
     [(''Content-Type'', ''application/json'')] @
     (if truthy (STRAPI_TOKEN e)
      then [(''Authorization'', ''Bearer '' @ tmpl (STRAPI_TOKEN e))] else [])"

definition collection_url :: "env \<Rightarrow> string \<Rightarrow> string" where
  "collection_url e endpoint =
     tmpl (STRAPI_URL e) @ ''/api/'' @ endpoint @
     ''?populate[image][fields][0]=url&populate[image][fields][1]=alternativeText'' @
     ''&populate[image][fields][2]=formats&populate[cuisine][fields][0]=name''"

definition single_url :: "env \<Rightarrow> string \<Rightarrow> string" where
  "single_url e endpoint =
     tmpl (STRAPI_URL e) @ ''/api/'' @ endpoint @ ''?populate[heroSection][populate]=heroImage''"

text \<open>The message of the \<^verbatim>\<open>Error\<close> thrown on a response that is not ok.\<close>

definition status_message :: "string \<Rightarrow> string \<Rightarrow> response \<Rightarrow> string" where
  "status_message generic endpoint r =
     (if status r = 404 then ''Endpoint not found: '' @ endpoint
      else if status r = 401 then ''Authentication required. Please check your API token.''
      else if status r = 403
        then ''Access forbidden. Your API token may not have the required permissions.''
      else if status r \<ge> 500 then ''Strapi server error. Please try again later.''
      else generic @ statusText r)"

text \<open>
  The body of the \<^verbatim>\<open>try\<close> block the two fetchers share: the request under the
  10 second signal, the status check, the parse. \<open>Inl\<close> is what the block throws.
\<close>

definition fetch_try ::
  "env \<Rightarrow> world \<Rightarrow> string \<Rightarrow> string \<Rightarrow> string \<Rightarrow> (json \<Rightarrow> piece list)
     \<Rightarrow> event list \<times> (exn + json)" where
  "fetch_try e w url generic endpoint success =
     (let hs = request_headers e; sent = [HttpGet url hs (Some 10000)] in
      case await_until 10000 (fetch w url hs) of
        Inl x \<Rightarrow> (sent, Inl x)
      | Inr r \<Rightarrow>
          if \<not> ok r then (sent, Inl (Error (status_message generic endpoint r)))
          else (case await_until 10000 (json_body r) of
                  Inl x \<Rightarrow> (sent, Inl x)
                | Inr data \<Rightarrow>
                    (sent @ (if DEV e then [ConsoleLog (success data)] else []), Inr data)))"

text \<open>The \<^verbatim>\<open>catch\<close> block: two lines in development, one otherwise.\<close>

definition fetch_catch :: "env \<Rightarrow> string \<Rightarrow> string \<Rightarrow> exn \<Rightarrow> event list" where
  "fetch_catch e endpoint kind x =
     (if DEV e
      then [ConsoleError [Lit (cross_mark @ '' Strapi fetch error for '' @ endpoint @ '':''),
                          Caught x],
            ConsoleLog [Lit (arrow_sign @ '' Returning '' @ kind @
                             '' data - pages will use fallback content'')]]
      else [ConsoleLog [Lit (''Using fallback content for '' @ endpoint @
                             '' (Strapi unavailable)'')]])"

definition fetchStrapi :: "env \<Rightarrow> world \<Rightarrow> string \<Rightarrow> event list \<times> (exn + json)" where
  "fetchStrapi e w endpoint =
     (if \<not> truthy (STRAPI_URL e)
      then ((if DEV e
             then [ConsoleLog [Lit (info_sign @
                     ''  Strapi not configured - returning empty data for '' @ endpoint)]]
             else []),
            Inr empty_collection)
      else
        (case fetch_try e w (collection_url e endpoint) ''Failed to fetch from Strapi: ''
                endpoint
                (\<lambda>data. [Lit (check_mark @ '' Successfully fetched ''), ItemCount data,
                          Lit ('' items from '' @ endpoint)]) of
           (evs, Inr data) \<Rightarrow> (evs, Inr data)
         | (evs, Inl x) \<Rightarrow> (evs @ fetch_catch e endpoint ''empty'' x, Inr empty_collection)))"

definition fetchStrapiSingle :: "env \<Rightarrow> world \<Rightarrow> string \<Rightarrow> event list \<times> (exn + json)" where
  "fetchStrapiSingle e w endpoint =
     (if \<not> truthy (STRAPI_URL e)
      then ((if DEV e
             then [ConsoleLog [Lit (info_sign @
                     ''  Strapi not configured - returning null data for '' @ endpoint)]]
             else []),
            Inr null_single)
      else
        (case fetch_try e w (single_url e endpoint) (''Failed to fetch '' @ endpoint @ '': '')
                endpoint
                (\<lambda>data. [Lit (check_mark @ '' Successfully fetched '' @ endpoint)]) of
           (evs, Inr data) \<Rightarrow> (evs, Inr data)
         | (evs, Inl x) \<Rightarrow> (evs @ fetch_catch e endpoint ''null'' x, Inr null_single)))"

subsection \<open>downloadStrapiImage\<close>

text \<open>
  From the directory check to the returned path: \<^verbatim>\<open>mkdirSync\<close> only when the
  directory is not there, and then with \<^verbatim>\<open>recursive: true\<close>, which makes the
  directory and every directory above it that is missing; then \<^verbatim>\<open>writeFileSync\<close>
  over whatever the path held.
\<close>

definition save_image ::
  "world \<Rightarrow> filesystem \<Rightarrow> string \<Rightarrow> string \<Rightarrow> byte list
     \<Rightarrow> event list \<times> filesystem \<times> (exn + string)" where
  "save_image w fs cwd filename buffer =
     (let uploadsDir = path_join w [cwd, ''public'', ''uploads''];
          made = (if existsSync fs uploadsDir then ([], fs, None)
                  else (case mkdir_error w uploadsDir of
                          Some x \<Rightarrow> ([MkdirSync uploadsDir], fs, Some x)
                        | None \<Rightarrow> ([MkdirSync uploadsDir],
                                    fs\<lparr>dirs := set (uploadsDir # dirs_above w uploadsDir) \<union>
                                               dirs fs\<rparr>, None)))
      in case made of
           (evs, fs1, Some x) \<Rightarrow> (evs, fs1, Inl x)
         | (evs, fs1, None) \<Rightarrow>
             (let localPath = path_join w [uploadsDir, filename];
                  evs1 = evs @ [WriteFileSync localPath buffer]
              in case write_error w localPath of
                   Some x \<Rightarrow> (evs1, fs1, Inl x)
                 | None \<Rightarrow>
                     (evs1 @ [ConsoleLog [Lit (check_mark @ '' Downloaded image: '' @ filename)]],
                      fs1\<lparr>files := (files fs1)(localPath \<mapsto> buffer)\<rparr>,
                      Inr (''/uploads/'' @ filename))))"

text \<open>
  The \<^verbatim>\<open>try\<close> block of the production branch. \<open>None\<close>: the request or its body
  never settles (no signal is passed), so the block never finishes.
\<close>

definition download_try ::
  "world \<Rightarrow> filesystem \<Rightarrow> string \<Rightarrow> (event list \<times> filesystem \<times> (exn + string)) option" where
  "download_try w fs fullUrl =
     (case url_pathname w fullUrl of
        Inl x \<Rightarrow> Some ([], fs, Inl x)
      | Inr urlPath \<Rightarrow>
          (let filename = pop (split_slash urlPath) in
           if \<not> truthy filename
           then Some ([ConsoleWarn [Lit (warning_sign @
                         ''  Could not extract filename from URL: '' @ fullUrl)]],
                      fs, Inr fullUrl)
           else
             (case await_plain (fetch w fullUrl []) of
                None \<Rightarrow> None
              | Some (Inl x) \<Rightarrow> Some ([HttpGet fullUrl [] None], fs, Inl x)
              | Some (Inr r) \<Rightarrow>
                  if \<not> ok r
                  then Some ([HttpGet fullUrl [] None,
                              ConsoleWarn [Lit (warning_sign @ ''  Failed to download image (''),
                                           Num (status r), Lit (''): '' @ fullUrl)]],
                             fs, Inr fullUrl)
                  else
                    (case await_plain (array_buffer r) of
                       None \<Rightarrow> None
                     | Some (Inl x) \<Rightarrow> Some ([HttpGet fullUrl [] None], fs, Inl x)
                     | Some (Inr buffer) \<Rightarrow>
                         (case import_node w of
                            Some x \<Rightarrow> Some ([HttpGet fullUrl [] None], fs, Inl x)
                          | None \<Rightarrow>
                              (case process_cwd w of
                                 Inl x \<Rightarrow> Some ([HttpGet fullUrl [] None], fs, Inl x)
                               | Inr cwd \<Rightarrow>
                                   (case save_image w fs cwd (tmpl filename) buffer of
                                      (evs, fs1, res) \<Rightarrow>
                                        Some (HttpGet fullUrl [] None # evs, fs1, res))))))))"

text \<open>
  The exported function. \<open>None\<close>: the call never returns. The last component is
  \<open>Inl\<close> for an exception that reaches the caller, \<open>Inr\<close> for the returned value.
\<close>

fun downloadStrapiImage ::
  "env \<Rightarrow> world \<Rightarrow> filesystem \<Rightarrow> jsarg
     \<Rightarrow> (event list \<times> filesystem \<times> (exn + string option)) option" where
  "downloadStrapiImage e w fs (Str url) =
     (if url = []
      then Some ((if DEV e then [ConsoleLog [Lit (info_sign @
                    ''  No image URL provided, returning null'')]] else []), fs, Inr None)
      else if DEV e then Some ([], fs, Inr (getStrapiMedia e (Str url)))
      else
        (let fullUrl = (if startsWith url ''http'' then url else tmpl (STRAPI_URL e) @ url) in
         if PROD' e \<or> MODE e = ''production''
         then (case download_try w fs fullUrl of
                 None \<Rightarrow> None
               | Some (evs, fs1, Inr s) \<Rightarrow> Some (evs, fs1, Inr (Some s))
               | Some (evs, fs1, Inl x) \<Rightarrow>
                   Some (evs @ [ConsoleError [Lit (cross_mark @ '' Error downloading image '' @
                                                   fullUrl @ '':''), Caught x]],
                         fs1, Inr (Some fullUrl)))
         else Some ([], fs, Inr (getStrapiMedia e (Str url)))))"
| "downloadStrapiImage e w fs absent =
     Some ((if DEV e then [ConsoleLog [Lit (info_sign @
              ''  No image URL provided, returning null'')]] else []), fs, Inr None)"

subsection \<open>The specification's notions\<close>

text \<open>
  An absolute, scheme-qualified address as the specification means it: a scheme (a
  letter, then letters, digits, \<open>+\<close>, \<open>-\<close> or \<open>.\<close>) followed by a colon.
\<close>

definition is_alpha :: "char \<Rightarrow> bool" where
  "is_alpha c = (c \<in> set ''abcdefghijklmnopqrstuvwxyzABCDEFGHIJKLMNOPQRSTUVWXYZ'')"

definition is_scheme_char :: "char \<Rightarrow> bool" where
  "is_scheme_char c = (is_alpha c \<or> c \<in> set ''0123456789+-.'')"

definition scheme_qualified :: "string \<Rightarrow> bool" where
  "scheme_qualified s =
     (case takeWhile (\<lambda>c. c \<noteq> CHR '':'') s of
        [] \<Rightarrow> False
      | c # cs \<Rightarrow> is_alpha c \<and> list_all is_scheme_char cs \<and> Suc (length cs) < length s)"

text \<open>
  What the specification lets downloadStrapiImage return: \<^verbatim>\<open>null\<close>, a site-relative
  path \<^verbatim>\<open>/uploads/<filename>\<close>, or an absolute address.
\<close>

fun usable_result :: "string option \<Rightarrow> bool" where
  "usable_result None = True"
| "usable_result (Some s) =
     ((startsWith s ''/uploads/'' \<and> length ''/uploads/'' < length s) \<or> scheme_qualified s)"

text \<open>
  The failures of a content request the specification lists: the request never answers
  or answers after the 10 seconds, \<^verbatim>\<open>fetch\<close> throws, the status is not a success, the
  body comes too late or cannot be parsed.
\<close>

definition request_fails :: "env \<Rightarrow> world \<Rightarrow> string \<Rightarrow> bool" where
  "request_fails e w url =
     (case fetch w url (request_headers e) of
        Never \<Rightarrow> True
      | Settles t (Inl x) \<Rightarrow> True
      | Settles t (Inr r) \<Rightarrow>
          10000 \<le> t \<or> status r < 200 \<or> 299 < status r \<or>
          (case json_body r of
             Never \<Rightarrow> True
           | Settles t' (Inl x) \<Rightarrow> True
           | Settles t' (Inr data) \<Rightarrow> 10000 \<le> t'))"

text \<open>Neither a request nor a write among the events of a call.\<close>

definition no_io :: "event list \<Rightarrow> bool" where
  "no_io evs = (filter is_network evs = [] \<and> filter is_fs_write evs = [])"

text \<open>
  The file name the production branch takes from an address: the last piece of its path,
  when the address parses and that piece is not empty.
\<close>

definition filename_of :: "world \<Rightarrow> string \<Rightarrow> string option" where
  "filename_of w a =
     (case url_pathname w a of
        Inl x \<Rightarrow> None
      | Inr p \<Rightarrow> (case pop (split_slash p) of
                   None \<Rightarrow> None
                 | Some fn \<Rightarrow> if fn = [] then None else Some fn))"

text \<open>
  A call of downloadStrapiImage works with the address \<open>a\<close>. What it returns is a
  string, and either it is \<open>a\<close> itself, with at most the one request for \<open>a\<close>
  made; or it is \<^verbatim>\<open>/uploads/\<close> followed by the file name of \<open>a\<close>, and then exactly
  the one request for \<open>a\<close> was made. A call that never returns is one whose request
  for \<open>a\<close>, or the body of its successful response, never settles.
\<close>

fun works_with ::
  "world \<Rightarrow> string \<Rightarrow> (event list \<times> filesystem \<times> (exn + string option)) option \<Rightarrow> bool" where
  "works_with w a None =
     (case fetch w a [] of
        Never \<Rightarrow> True
      | Settles t (Inl x) \<Rightarrow> False
      | Settles t (Inr r) \<Rightarrow> ok r \<and> array_buffer r = Never)"
| "works_with w a (Some (evs, fs1, r)) =
     (case r of
        Inl x \<Rightarrow> False
      | Inr None \<Rightarrow> False
      | Inr (Some s) \<Rightarrow>
          (s = a \<and>
           (filter is_network evs = [] \<or> filter is_network evs = [HttpGet a [] None])) \<or>
          (case filename_of w a of
             None \<Rightarrow> False
           | Some fn \<Rightarrow> s = ''/uploads/'' @ fn \<and>
                        filter is_network evs = [HttpGet a [] None]))"

subsection \<open>Sample settings and platforms\<close>

definition cms_env :: env where
  "cms_env = \<lparr>STRAPI_URL = Some ''https://cms.example.com'', STRAPI_TOKEN = None,
               DEV = False, PROD' = True, MODE = ''production''\<rparr>"

definition dev_env :: env where
  "dev_env = \<lparr>STRAPI_URL = Some ''https://cms.example.com'', STRAPI_TOKEN = None,
               DEV = True, PROD' = False, MODE = ''development''\<rparr>"

definition unset_env :: env where
  "unset_env = \<lparr>STRAPI_URL = None, STRAPI_TOKEN = None,
                 DEV = False, PROD' = True, MODE = ''production''\<rparr>"

definition local_env :: env where
  "local_env = \<lparr>STRAPI_URL = Some ''localhost:1337'', STRAPI_TOKEN = None,
                 DEV = False, PROD' = True, MODE = ''production''\<rparr>"

text \<open>\<^verbatim>\<open>path.join\<close> on segments that need no normalising.\<close>

fun posix_join :: "string list \<Rightarrow> string" where
  "posix_join [] = ''.''"
| "posix_join [x] = x"
| "posix_join (x # y # ys) = x @ ''/'' @ posix_join (y # ys)"

text \<open>The directories above a path written with slashes, from the root down.\<close>

fun slash_prefixes :: "string \<Rightarrow> string \<Rightarrow> string list" where
  "slash_prefixes pre [] = []"
| "slash_prefixes pre (c # cs) =
     (if c = CHR ''/''
      then (if pre = [] then ''/'' else pre) # slash_prefixes (pre @ [c]) cs
      else slash_prefixes (pre @ [c]) cs)"

definition posix_ancestors :: "string \<Rightarrow> string list" where
  "posix_ancestors p = slash_prefixes [] p"

definition plate_bytes :: "byte list" where
  "plate_bytes = [0xFF, 0xD8, 0xFF, 0xE0]"

definition plate_response :: response where
  "plate_response = \<lparr>status = 200, statusText = ''OK'',
                      json_body = Settles 40 (Inl (Thrown ''SyntaxError'')),
                      array_buffer = Settles 40 (Inr plate_bytes)\<rparr>"

definition error_response :: "nat \<Rightarrow> response" where
  "error_response code = \<lparr>status = code, statusText = ''Error'',
                           json_body = Settles 30 (Inr (JObj [(''error'', JNull)])),
                           array_buffer = Settles 30 (Inr [])\<rparr>"

text \<open>
  A platform where the backend serves one image, answers the menu request with a 500 and
  the homepage request with a 404, and nothing else resolves.
\<close>

definition cms_world :: world where
  "cms_world =
     \<lparr>fetch = (\<lambda>u hs.
         if u = ''https://cms.example.com/uploads/plate.jpg'' then Settles 35 (Inr plate_response)
         else if u = collection_url cms_env ''menu-items'' then Settles 25 (Inr (error_response 500))
         else if u = single_url cms_env ''homepage'' then Settles 25 (Inr (error_response 404))
         else Settles 5 (Inl (Thrown ''TypeError: fetch failed''))),
      url_pathname = (\<lambda>u.
         if u = ''https://cms.example.com/uploads/plate.jpg'' then Inr ''/uploads/plate.jpg''
         else Inl (Thrown ''TypeError: Invalid URL'')),
      import_node = None,
      process_cwd = Inr ''/srv/site'',
      path_join = posix_join,
      dirs_above = posix_ancestors,
      mkdir_error = (\<lambda>p. None),
      write_error = (\<lambda>p. None)\<rparr>"

text \<open>The same platform with a disk that takes no more files.\<close>

definition full_disk_world :: world where
  "full_disk_world = cms_world\<lparr>write_error := (\<lambda>p. Some (Thrown ''ENOSPC''))\<rparr>"

text \<open>A platform where no request is ever answered.\<close>

definition silent_world :: world where
  "silent_world = cms_world\<lparr>fetch := (\<lambda>u hs. Never)\<rparr>"

definition empty_fs :: filesystem where
  "empty_fs = \<lparr>dirs = {}, files = (\<lambda>p. None)\<rparr>"

text \<open>A file system that already holds the uploads directory and an older file.\<close>

definition stale_fs :: filesystem where
  "stale_fs = \<lparr>dirs = {''/srv/site/public/uploads''},
                files = (\<lambda>p. if p = ''/srv/site/public/uploads/plate.jpg''
                              then Some [0x00] else None)\<rparr>"

section \<open>Properties\<close>

subsection \<open>The absoluteness test\<close>

lemma startsWith_append: "startsWith b p \<Longrightarrow> startsWith (b @ u) p"
  unfolding startsWith_def by (metis append_eq_conv_conj append.assoc)

lemma startsWith_http: "startsWith s ''http'' \<longleftrightarrow> take 4 s = ''http''"
proof -
  have "length ''http'' = 4" by simp
  then show ?thesis
    unfolding startsWith_def by (rule arg_cong [where f = "\<lambda>n. take n s = ''http''"])
qed

lemma http_no_slash: "i < 4 \<Longrightarrow> ''http'' ! i \<noteq> CHR ''/''"
  by (auto simp add: numeral_eq_Suc less_Suc_eq)

lemma startsWith_slash:
  assumes "b \<noteq> []" and "\<not> startsWith b ''http''"
  shows "\<not> startsWith (b @ ''/a'') ''http''"
proof (cases "4 \<le> length b")
  case True
  then show ?thesis using assms(2) by (simp add: startsWith_http)
next
  case False
  then have short: "length b < 4" by simp
  show ?thesis
  proof
    assume "startsWith (b @ ''/a'') ''http''"
    then have "take 4 (b @ ''/a'') = ''http''" by (simp only: startsWith_http)
    then have "take 4 (b @ ''/a'') ! length b = ''http'' ! length b" by simp
    moreover have "take 4 (b @ ''/a'') ! length b = CHR ''/''"
      using short by (simp add: nth_append)
    ultimately show False using http_no_slash [OF short] by simp
  qed
qed

lemma media_fixed: "startsWith u ''http'' \<Longrightarrow> getStrapiMedia e (Str u) = Some u"
  by (auto simp add: startsWith_def)

subsection \<open>Idempotence of getStrapiMedia\<close>

text \<open>
  C8, as the code has it: resolving a resolved address changes nothing, for every
  input, exactly when the base URL is unset, empty or itself begins with \<open>http\<close>.
  Under such a base URL the second application finds the \<open>http\<close> prefix and returns
  its argument, so nothing is prefixed twice.
\<close>

theorem getStrapiMedia_idempotent_iff:
  "(\<forall>x. getStrapiMedia e (as_arg (getStrapiMedia e x)) = getStrapiMedia e x)
   \<longleftrightarrow> (\<not> truthy (STRAPI_URL e) \<or> startsWith (tmpl (STRAPI_URL e)) ''http'')"
proof
  assume all: "\<forall>x. getStrapiMedia e (as_arg (getStrapiMedia e x)) = getStrapiMedia e x"
  show "\<not> truthy (STRAPI_URL e) \<or> startsWith (tmpl (STRAPI_URL e)) ''http''"
  proof (rule ccontr)
    assume "\<not> ?thesis"
    then have t: "truthy (STRAPI_URL e)" and n: "\<not> startsWith (tmpl (STRAPI_URL e)) ''http''"
      by simp_all
    from t obtain b where b: "STRAPI_URL e = Some b" "b \<noteq> []"
      by (cases "STRAPI_URL e") simp_all
    have r: "\<not> startsWith ''/a'' ''http''" by (simp add: startsWith_def)
    have first: "getStrapiMedia e (Str ''/a'') = Some (b @ ''/a'')"
      using b r by simp
    have "\<not> startsWith (b @ ''/a'') ''http''"
      using startsWith_slash [of b] b n by simp
    then have "getStrapiMedia e (Str (b @ ''/a'')) = Some (b @ b @ ''/a'')"
      using b by simp
    moreover have "getStrapiMedia e (Str (b @ ''/a'')) = Some (b @ ''/a'')"
      using all [rule_format, of "Str ''/a''"] first by simp
    ultimately show False using b by simp
  qed
next
  assume cfg: "\<not> truthy (STRAPI_URL e) \<or> startsWith (tmpl (STRAPI_URL e)) ''http''"
  show "\<forall>x. getStrapiMedia e (as_arg (getStrapiMedia e x)) = getStrapiMedia e x"
  proof
    fix x
    show "getStrapiMedia e (as_arg (getStrapiMedia e x)) = getStrapiMedia e x"
    proof (cases x)
      case (Str u)
      show ?thesis
      proof (cases "u = [] \<or> (\<not> startsWith u ''http'' \<and> \<not> truthy (STRAPI_URL e))")
        case True
        then show ?thesis using Str by auto
      next
        case False
        then have "getStrapiMedia e (Str u) = Some u \<and> startsWith u ''http'' \<or>
          getStrapiMedia e (Str u) = Some (tmpl (STRAPI_URL e) @ u)
            \<and> startsWith (tmpl (STRAPI_URL e) @ u) ''http''"
          using cfg startsWith_append [of "tmpl (STRAPI_URL e)" "''http''" u] by auto
        then show ?thesis using Str media_fixed by auto
      qed
    qed simp_all
  qed
qed

theorem getStrapiMedia_idempotent_iff_witness:
  "startsWith (tmpl (STRAPI_URL cms_env)) ''http'' \<and>
   getStrapiMedia cms_env (Str ''/uploads/plate.jpg'')
     = Some ''https://cms.example.com/uploads/plate.jpg'' \<and>
   getStrapiMedia cms_env (as_arg (getStrapiMedia cms_env (Str ''/uploads/plate.jpg'')))
     = Some ''https://cms.example.com/uploads/plate.jpg''"
proof -
  have h: "startsWith (tmpl (STRAPI_URL cms_env)) ''http''"
    by (simp add: cms_env_def startsWith_def)
  then have "\<forall>x. getStrapiMedia cms_env (as_arg (getStrapiMedia cms_env x))
               = getStrapiMedia cms_env x"
    using getStrapiMedia_idempotent_iff [of cms_env] by blast
  then have "getStrapiMedia cms_env (as_arg (getStrapiMedia cms_env (Str ''/uploads/plate.jpg'')))
               = getStrapiMedia cms_env (Str ''/uploads/plate.jpg'')"
    by blast
  moreover have "getStrapiMedia cms_env (Str ''/uploads/plate.jpg'')
                   = Some ''https://cms.example.com/uploads/plate.jpg''"
    by (simp add: cms_env_def startsWith_def)
  ultimately show ?thesis using h by simp
qed

text \<open>
  C8 as stated, for every configuration, fails: with the base URL \<open>localhost:1337\<close>
  the first application gives \<open>localhost:1337/uploads/plate.jpg\<close>, which does not
  begin with \<open>http\<close>, and the second prefixes it again.
\<close>

theorem getStrapiMedia_idempotent_counterexample:
  "getStrapiMedia local_env (as_arg (getStrapiMedia local_env (Str ''/uploads/plate.jpg'')))
     \<noteq> getStrapiMedia local_env (Str ''/uploads/plate.jpg'') \<and>
   getStrapiMedia local_env (as_arg (getStrapiMedia local_env (Str ''/uploads/plate.jpg'')))
     = Some ''localhost:1337localhost:1337/uploads/plate.jpg''"
  by (simp add: local_env_def startsWith_def)

subsection \<open>The two fetchers\<close>

lemma await_until_Inr:
  "await_until l p = Inr v \<longleftrightarrow> (\<exists>t. p = Settles t (Inr v) \<and> t < l)"
  by (cases p) auto

lemma fetch_try_value:
  "snd (fetch_try e w url g ep s) =
     (case await_until 10000 (fetch w url (request_headers e)) of
        Inl x \<Rightarrow> Inl x
      | Inr r \<Rightarrow> if ok r then await_until 10000 (json_body r)
                 else Inl (Error (status_message g ep r)))"
  by (simp add: fetch_try_def Let_def split: sum.splits)

lemma fetch_try_fails:
  assumes "request_fails e w url"
  shows "\<exists>x. snd (fetch_try e w url g ep s) = Inl x"
proof (cases "await_until 10000 (fetch w url (request_headers e))")
  case (Inl x)
  then show ?thesis by (simp add: fetch_try_value)
next
  case (Inr r)
  then obtain t where t: "fetch w url (request_headers e) = Settles t (Inr r)" "t < 10000"
    by (auto simp add: await_until_Inr)
  show ?thesis
  proof (cases "ok r")
    case False
    then show ?thesis using Inr by (simp add: fetch_try_value)
  next
    case True
    have "\<exists>x. await_until 10000 (json_body r) = Inl x"
    proof (cases "await_until 10000 (json_body r)")
      case (Inr data)
      then obtain t' where "json_body r = Settles t' (Inr data)" "t' < 10000"
        by (auto simp add: await_until_Inr)
      then show ?thesis using assms t True by (simp add: request_fails_def ok_def)
    qed simp
    then show ?thesis using Inr True by (auto simp add: fetch_try_value)
  qed
qed

lemma fetchStrapi_value:
  "snd (fetchStrapi e w ep) =
     Inr (if \<not> truthy (STRAPI_URL e) then empty_collection
          else (case snd (fetch_try e w (collection_url e ep) ''Failed to fetch from Strapi: '' ep
                  (\<lambda>data. [Lit (check_mark @ '' Successfully fetched ''), ItemCount data,
                            Lit ('' items from '' @ ep)])) of
                  Inl x \<Rightarrow> empty_collection | Inr data \<Rightarrow> data))"
  by (simp add: fetchStrapi_def split: prod.splits sum.splits)

lemma fetchStrapiSingle_value:
  "snd (fetchStrapiSingle e w ep) =
     Inr (if \<not> truthy (STRAPI_URL e) then null_single
          else (case snd (fetch_try e w (single_url e ep) (''Failed to fetch '' @ ep @ '': '') ep
                  (\<lambda>data. [Lit (check_mark @ '' Successfully fetched '' @ ep)])) of
                  Inl x \<Rightarrow> null_single | Inr data \<Rightarrow> data))"
  by (simp add: fetchStrapiSingle_def split: prod.splits sum.splits)

lemma fetchStrapi_fallback:
  assumes "request_fails e w (collection_url e ep)"
  shows "snd (fetchStrapi e w ep) = Inr empty_collection"
proof -
  obtain x where "snd (fetch_try e w (collection_url e ep) ''Failed to fetch from Strapi: '' ep
                  (\<lambda>data. [Lit (check_mark @ '' Successfully fetched ''), ItemCount data,
                            Lit ('' items from '' @ ep)])) = Inl x"
    using fetch_try_fails [OF assms] by blast
  then show ?thesis by (simp add: fetchStrapi_value)
qed

lemma fetchStrapiSingle_fallback:
  assumes "request_fails e w (single_url e ep)"
  shows "snd (fetchStrapiSingle e w ep) = Inr null_single"
proof -
  obtain x where "snd (fetch_try e w (single_url e ep) (''Failed to fetch '' @ ep @ '': '') ep
                  (\<lambda>data. [Lit (check_mark @ '' Successfully fetched '' @ ep)])) = Inl x"
    using fetch_try_fails [OF assms] by blast
  then show ?thesis by (simp add: fetchStrapiSingle_value)
qed

text \<open>
  C1: whatever the endpoint and whatever the platform answers, fetchStrapi and
  fetchStrapiSingle hand a value to the caller, never an exception; and when the request
  fails (no answer within the 10 seconds, \<^verbatim>\<open>fetch\<close> throws, a status that is not a
  success, a body that is late or does not parse) that value is exactly
  \<^verbatim>\<open>{ data: [], meta: {} }\<close>, respectively \<^verbatim>\<open>{ data: null, meta: {} }\<close>.
\<close>

theorem fetchers_never_raise:
  "(\<exists>v. snd (fetchStrapi e w ep) = Inr v) \<and>
   (\<exists>v. snd (fetchStrapiSingle e w ep) = Inr v) \<and>
   (request_fails e w (collection_url e ep) \<longrightarrow>
      snd (fetchStrapi e w ep) = Inr empty_collection) \<and>
   (request_fails e w (single_url e ep) \<longrightarrow>
      snd (fetchStrapiSingle e w ep) = Inr null_single)"
  using fetchStrapi_fallback [of e w ep] fetchStrapiSingle_fallback [of e w ep]
  by (simp add: fetchStrapi_value fetchStrapiSingle_value)

lemma cms_homepage_fails: "request_fails cms_env cms_world (single_url cms_env ''homepage'')"
  by (simp add: request_fails_def cms_world_def error_response_def cms_env_def
      collection_url_def single_url_def)

lemma silent_fails: "request_fails e silent_world url"
  by (simp add: request_fails_def silent_world_def)

text \<open>
  A platform that never answers, and one that answers the homepage request with a 404.
\<close>

theorem fetchers_never_raise_witness:
  "request_fails cms_env silent_world (collection_url cms_env ''menu-items'') \<and>
   snd (fetchStrapi cms_env silent_world ''menu-items'') = Inr empty_collection \<and>
   request_fails cms_env cms_world (single_url cms_env ''homepage'') \<and>
   snd (fetchStrapiSingle cms_env cms_world ''homepage'') = Inr null_single"
  using fetchers_never_raise [of cms_env silent_world "''menu-items''"]
    fetchers_never_raise [of cms_env cms_world "''homepage''"]
    silent_fails cms_homepage_fails
  by simp

text \<open>
  C2: with no base URL (unset or empty), for every endpoint, fetchStrapi returns
  \<^verbatim>\<open>{ data: [], meta: {} }\<close> (no items, no pagination under \<^verbatim>\<open>meta\<close>) and
  fetchStrapiSingle returns \<^verbatim>\<open>{ data: null, meta: {} }\<close>; neither issues a request,
  and the whole outcome is the same on every platform: nothing is awaited.
\<close>

theorem unconfigured_short_circuit:
  assumes "\<not> truthy (STRAPI_URL e)"
  shows "snd (fetchStrapi e w ep) = Inr (JObj [(''data'', JArr []), (''meta'', JObj [])]) \<and>
         snd (fetchStrapiSingle e w ep) = Inr (JObj [(''data'', JNull), (''meta'', JObj [])]) \<and>
         filter is_network (fst (fetchStrapi e w ep)) = [] \<and>
         filter is_network (fst (fetchStrapiSingle e w ep)) = [] \<and>
         fetchStrapi e w ep = fetchStrapi e w' ep \<and>
         fetchStrapiSingle e w ep = fetchStrapiSingle e w' ep"
  using assms
  by (simp add: fetchStrapi_def fetchStrapiSingle_def empty_collection_def null_single_def)

theorem unconfigured_short_circuit_witness:
  "\<not> truthy (STRAPI_URL unset_env) \<and>
   fetchStrapi unset_env cms_world ''menu-items''
     = ([], Inr (JObj [(''data'', JArr []), (''meta'', JObj [])])) \<and>
   fetchStrapiSingle unset_env cms_world ''homepage''
     = ([], Inr (JObj [(''data'', JNull), (''meta'', JObj [])]))"
proof -
  have h: "\<not> truthy (STRAPI_URL unset_env)" by (simp add: unset_env_def)
  have "fst (fetchStrapi unset_env cms_world ''menu-items'') = []"
    "fst (fetchStrapiSingle unset_env cms_world ''homepage'') = []"
    by (simp_all add: fetchStrapi_def fetchStrapiSingle_def unset_env_def)
  then show ?thesis
    using h unconfigured_short_circuit [OF h, of cms_world "''menu-items''" cms_world]
      unconfigured_short_circuit [OF h, of cms_world "''homepage''" cms_world]
    by (simp add: prod_eq_iff)
qed

lemma status_fails:
  "fetch w url (request_headers e) = Settles t (Inr r) \<Longrightarrow> 400 \<le> status r
     \<Longrightarrow> request_fails e w url"
  by (simp add: request_fails_def)

text \<open>
  C3: when the response has a status of 400 or more, fetchStrapi returns
  \<^verbatim>\<open>{ data: [], meta: {} }\<close> and fetchStrapiSingle \<^verbatim>\<open>{ data: null, meta: {} }\<close>,
  whichever message the status selected; the message only reaches the log.
\<close>

theorem status_classification_cosmetic:
  "(fetch w (collection_url e ep) (request_headers e) = Settles t (Inr r) \<and> 400 \<le> status r
      \<longrightarrow> snd (fetchStrapi e w ep) = Inr empty_collection) \<and>
   (fetch w (single_url e ep) (request_headers e) = Settles t (Inr r) \<and> 400 \<le> status r
      \<longrightarrow> snd (fetchStrapiSingle e w ep) = Inr null_single)"
  using fetchStrapi_fallback [of e w ep] fetchStrapiSingle_fallback [of e w ep]
    status_fails [of w _ e t r]
  by blast

text \<open>A 500 and a 404 select different messages and give the same fallbacks.\<close>

theorem status_classification_cosmetic_witness:
  "fetch cms_world (collection_url cms_env ''menu-items'') (request_headers cms_env)
     = Settles 25 (Inr (error_response 500)) \<and>
   fetch cms_world (single_url cms_env ''homepage'') (request_headers cms_env)
     = Settles 25 (Inr (error_response 404)) \<and>
   status_message ''Failed to fetch from Strapi: '' ''menu-items'' (error_response 500)
     = ''Strapi server error. Please try again later.'' \<and>
   status_message ''Failed to fetch homepage: '' ''homepage'' (error_response 404)
     = ''Endpoint not found: homepage'' \<and>
   snd (fetchStrapi cms_env cms_world ''menu-items'') = Inr empty_collection \<and>
   snd (fetchStrapiSingle cms_env cms_world ''homepage'') = Inr null_single"
proof -
  have a: "fetch cms_world (collection_url cms_env ''menu-items'') (request_headers cms_env)
     = Settles 25 (Inr (error_response 500))"
    by (simp add: cms_world_def cms_env_def collection_url_def)
  have b: "fetch cms_world (single_url cms_env ''homepage'') (request_headers cms_env)
     = Settles 25 (Inr (error_response 404))"
    by (simp add: cms_world_def cms_env_def collection_url_def single_url_def)
  have c: "(400::nat) \<le> status (error_response 500)" "(400::nat) \<le> status (error_response 404)"
    by (simp_all add: error_response_def)
  show ?thesis
    using a b c
      status_classification_cosmetic [of cms_world cms_env "''menu-items''" 25 "error_response 500"]
      status_classification_cosmetic [of cms_world cms_env "''homepage''" 25 "error_response 404"]
    by (simp add: status_message_def error_response_def)
qed

subsection \<open>The image cache\<close>

lemma save_image_value:
  "save_image w fs cwd fn buf = (evs, fs1, r) \<Longrightarrow>
     (r = Inr (''/uploads/'' @ fn) \<or> isl r) \<and> filter is_network evs = []"
  by (auto simp add: save_image_def Let_def split: if_splits option.splits)

lemma download_try_named:
  assumes "url_pathname w u = Inr p" and "pop (split_slash p) = Some fn" and "fn \<noteq> []"
    and "download_try w fs u = Some (evs, fs1, r)"
  shows "(r = Inr u \<or> r = Inr (''/uploads/'' @ fn) \<or> isl r) \<and>
         filter is_network evs = [HttpGet u [] None]"
proof (cases "await_plain (fetch w u [])")
  case None
  then show ?thesis using assms by (auto simp add: download_try_def)
next
  case (Some a)
  show ?thesis
  proof (cases a)
    case (Inl x)
    then show ?thesis using assms Some by (auto simp add: download_try_def)
  next
    case (Inr resp)
    show ?thesis
    proof (cases "ok resp")
      case False
      then show ?thesis using assms Some Inr by (auto simp add: download_try_def)
    next
      case True
      show ?thesis
      proof (cases "await_plain (array_buffer resp)")
        case None
        then show ?thesis using assms Some Inr True by (auto simp add: download_try_def)
      next
        case buf: (Some b)
        show ?thesis
        proof (cases b)
          case (Inl x)
          then show ?thesis using assms Some Inr True buf
            by (auto simp add: download_try_def)
        next
          case bytes: (Inr bytes)
          show ?thesis
          proof (cases "import_node w")
            case (Some x)
            then show ?thesis using assms \<open>await_plain (fetch w u []) = Some a\<close> Inr True buf bytes
              by (auto simp add: download_try_def)
          next
            case imp: None
            show ?thesis
            proof (cases "process_cwd w")
              case (Inl x)
              then have "r = Inl x" "evs = [HttpGet u [] None]"
                using assms \<open>await_plain (fetch w u []) = Some a\<close> Inr True buf bytes imp
                by (simp_all add: download_try_def)
              then show ?thesis by simp
            next
              case cwd: (Inr cwd)
              obtain evs' fs' r' where sv: "save_image w fs cwd fn bytes = (evs', fs', r')"
                by (cases "save_image w fs cwd fn bytes") blast
              have "evs = HttpGet u [] None # evs'" "r = r'"
                using assms \<open>await_plain (fetch w u []) = Some a\<close> Inr True buf bytes imp cwd sv
                by (simp_all add: download_try_def)
              then show ?thesis using save_image_value [OF sv] by auto
            qed
          qed
        qed
      qed
    qed
  qed
qed

lemma download_try_value:
  assumes "download_try w fs u = Some (evs, fs1, r)"
  shows "(r = Inr u \<or> (\<exists>fn. fn \<noteq> [] \<and> r = Inr (''/uploads/'' @ fn)) \<or> isl r) \<and>
         (filter is_network evs = [] \<or> filter is_network evs = [HttpGet u [] None])"
proof (cases "url_pathname w u")
  case (Inl x)
  with assms have "r = Inl x" "evs = []" by (simp_all add: download_try_def)
  then show ?thesis by simp
next
  case (Inr p)
  show ?thesis
  proof (cases "truthy (pop (split_slash p))")
    case False
    with assms Inr have "r = Inr u" "filter is_network evs = []"
      by (auto simp add: download_try_def Let_def)
    then show ?thesis by simp
  next
    case True
    then obtain fn where fn: "pop (split_slash p) = Some fn" "fn \<noteq> []"
      by (cases "pop (split_slash p)") simp_all
    show ?thesis
      using download_try_named [OF Inr fn assms] fn(2) by blast
  qed
qed

lemma downloadStrapiImage_never_raises:
  assumes "downloadStrapiImage e w fs x = Some (evs, fs1, r)"
  shows "\<exists>v. r = Inr v"
  using assms
  by (cases x) (auto split: if_splits option.splits sum.splits prod.splits simp add: Let_def)

lemma save_image_ok:
  assumes "d = path_join w [cwd, ''public'', ''uploads'']"
    and "existsSync fs d \<or> mkdir_error w d = None"
    and "p = path_join w [d, fn]" and "write_error w p = None"
  shows "save_image w fs cwd fn buf =
    ((if existsSync fs d then [] else [MkdirSync d]) @
       [WriteFileSync p buf, ConsoleLog [Lit (check_mark @ '' Downloaded image: '' @ fn)]],
     \<lparr>dirs = (if existsSync fs d then dirs fs else set (d # dirs_above w d) \<union> dirs fs),
      files = (files fs)(p \<mapsto> buf)\<rparr>,
     Inr (''/uploads/'' @ fn))"
  using assms by (auto simp add: save_image_def Let_def)

text \<open>
  C6, as the code has it: in production mode, with a base URL configured, for a relative
  path whose download succeeds and whose saving does not throw (the \<^verbatim>\<open>fs\<close> and
  \<^verbatim>\<open>path\<close> modules load, \<^verbatim>\<open>process.cwd()\<close> answers, \<^verbatim>\<open>mkdirSync\<close>, when it is
  called, and \<^verbatim>\<open>writeFileSync\<close> succeed), downloadStrapiImage requests the base URL
  followed by the path (and nothing else), creates the uploads directory under the
  working directory, with the missing directories above it, when it is not there, writes
  the bytes received to the file named after the last segment of the address's path,
  whatever that file held before, and returns \<^verbatim>\<open>/uploads/<filename>\<close>.
\<close>

theorem production_download_caches:
  assumes mode: "\<not> DEV e" "PROD' e \<or> MODE e = ''production''"
    and base: "STRAPI_URL e = Some base"
    and rel: "url \<noteq> []" "\<not> startsWith url ''http''"
    and path: "url_pathname w (base @ url) = Inr p" "pop (split_slash p) = Some filename"
      "filename \<noteq> []"
    and got: "fetch w (base @ url) [] = Settles t (Inr r)" "ok r"
      "array_buffer r = Settles t' (Inr bytes)"
    and node: "import_node w = None" "process_cwd w = Inr cwd"
    and dir: "uploadsDir = path_join w [cwd, ''public'', ''uploads'']"
      "existsSync fs uploadsDir \<or> mkdir_error w uploadsDir = None"
    and dest: "localPath = path_join w [uploadsDir, filename]" "write_error w localPath = None"
  shows "\<exists>evs fs1.
    downloadStrapiImage e w fs (Str url) = Some (evs, fs1, Inr (Some (''/uploads/'' @ filename))) \<and>
    filter is_network evs = [HttpGet (base @ url) [] None] \<and>
    filter is_fs_write evs =
      (if existsSync fs uploadsDir then [] else [MkdirSync uploadsDir]) @
      [WriteFileSync localPath bytes] \<and>
    files fs1 = (files fs)(localPath \<mapsto> bytes) \<and>
    dirs fs1 = (if existsSync fs uploadsDir then dirs fs
                else set (uploadsDir # dirs_above w uploadsDir) \<union> dirs fs)"
proof -
  have sv: "save_image w fs cwd filename bytes =
    ((if existsSync fs uploadsDir then [] else [MkdirSync uploadsDir]) @
       [WriteFileSync localPath bytes,
        ConsoleLog [Lit (check_mark @ '' Downloaded image: '' @ filename)]],
     \<lparr>dirs = (if existsSync fs uploadsDir then dirs fs
              else set (uploadsDir # dirs_above w uploadsDir) \<union> dirs fs),
      files = (files fs)(localPath \<mapsto> bytes)\<rparr>,
     Inr (''/uploads/'' @ filename))"
    by (rule save_image_ok [OF dir dest])
  have "download_try w fs (base @ url) =
    Some (HttpGet (base @ url) [] None #
          (if existsSync fs uploadsDir then [] else [MkdirSync uploadsDir]) @
          [WriteFileSync localPath bytes,
           ConsoleLog [Lit (check_mark @ '' Downloaded image: '' @ filename)]],
          \<lparr>dirs = (if existsSync fs uploadsDir then dirs fs
                   else set (uploadsDir # dirs_above w uploadsDir) \<union> dirs fs),
           files = (files fs)(localPath \<mapsto> bytes)\<rparr>,
          Inr (''/uploads/'' @ filename))"
    using path got node sv by (simp add: download_try_def)
  then show ?thesis using mode base rel by auto
qed

text \<open>
  \<^verbatim>\<open>/uploads/plate.jpg\<close> against \<^verbatim>\<open>https://cms.example.com\<close>: on an empty file
  system the directory is made together with the directories above it; on one that holds
  an older \<^verbatim>\<open>plate.jpg\<close> the file is overwritten.
\<close>

theorem production_download_caches_witness:
  "(\<exists>evs fs1.
      downloadStrapiImage cms_env cms_world empty_fs (Str ''/uploads/plate.jpg'')
        = Some (evs, fs1, Inr (Some ''/uploads/plate.jpg'')) \<and>
      filter is_network evs = [HttpGet ''https://cms.example.com/uploads/plate.jpg'' [] None] \<and>
      filter is_fs_write evs = [MkdirSync ''/srv/site/public/uploads'',
                                WriteFileSync ''/srv/site/public/uploads/plate.jpg'' plate_bytes] \<and>
      dirs fs1 = {''/srv/site/public/uploads'', ''/'', ''/srv'', ''/srv/site'',
                  ''/srv/site/public''} \<and>
      files fs1 ''/srv/site/public/uploads/plate.jpg'' = Some plate_bytes) \<and>
   (\<exists>evs fs1.
      downloadStrapiImage cms_env cms_world stale_fs (Str ''/uploads/plate.jpg'')
        = Some (evs, fs1, Inr (Some ''/uploads/plate.jpg'')) \<and>
      filter is_network evs = [HttpGet ''https://cms.example.com/uploads/plate.jpg'' [] None] \<and>
      filter is_fs_write evs = [WriteFileSync ''/srv/site/public/uploads/plate.jpg'' plate_bytes] \<and>
      dirs fs1 = dirs stale_fs \<and>
      files stale_fs ''/srv/site/public/uploads/plate.jpg'' = Some [0x00] \<and>
      files fs1 ''/srv/site/public/uploads/plate.jpg'' = Some plate_bytes)"
proof -
  have inst: "\<exists>evs fs1.
    downloadStrapiImage cms_env cms_world fs (Str ''/uploads/plate.jpg'')
      = Some (evs, fs1, Inr (Some (''/uploads/'' @ ''plate.jpg''))) \<and>
    filter is_network evs = [HttpGet (''https://cms.example.com'' @ ''/uploads/plate.jpg'') [] None] \<and>
    filter is_fs_write evs =
      (if existsSync fs ''/srv/site/public/uploads'' then []
       else [MkdirSync ''/srv/site/public/uploads'']) @
      [WriteFileSync ''/srv/site/public/uploads/plate.jpg'' plate_bytes] \<and>
    files fs1 = (files fs)(''/srv/site/public/uploads/plate.jpg'' \<mapsto> plate_bytes) \<and>
    dirs fs1 = (if existsSync fs ''/srv/site/public/uploads'' then dirs fs
                else set (''/srv/site/public/uploads'' #
                          dirs_above cms_world ''/srv/site/public/uploads'') \<union> dirs fs)" for fs
  proof (rule production_download_caches [where p = "''/uploads/plate.jpg''" and t = 35
        and r = plate_response and t' = 40 and cwd = "''/srv/site''"])
    show "\<not> DEV cms_env" by (simp add: cms_env_def)
    show "PROD' cms_env \<or> MODE cms_env = ''production''" by (simp add: cms_env_def)
    show "STRAPI_URL cms_env = Some ''https://cms.example.com''" by (simp add: cms_env_def)
    show "''/uploads/plate.jpg'' \<noteq> []" by simp
    show "\<not> startsWith ''/uploads/plate.jpg'' ''http''" by (simp add: startsWith_def)
    show "url_pathname cms_world (''https://cms.example.com'' @ ''/uploads/plate.jpg'')
            = Inr ''/uploads/plate.jpg''" by (simp add: cms_world_def)
    show "pop (split_slash ''/uploads/plate.jpg'') = Some ''plate.jpg''" by simp
    show "''plate.jpg'' \<noteq> []" by simp
    show "fetch cms_world (''https://cms.example.com'' @ ''/uploads/plate.jpg'') []
            = Settles 35 (Inr plate_response)" by (simp add: cms_world_def)
    show "ok plate_response" by (simp add: ok_def plate_response_def)
    show "array_buffer plate_response = Settles 40 (Inr plate_bytes)"
      by (simp add: plate_response_def)
    show "import_node cms_world = None" by (simp add: cms_world_def)
    show "process_cwd cms_world = Inr ''/srv/site''" by (simp add: cms_world_def)
    show "''/srv/site/public/uploads'' = path_join cms_world [''/srv/site'', ''public'', ''uploads'']"
      by (simp add: cms_world_def)
    show "existsSync fs ''/srv/site/public/uploads'' \<or>
          mkdir_error cms_world ''/srv/site/public/uploads'' = None"
      by (simp add: cms_world_def)
    show "''/srv/site/public/uploads/plate.jpg''
            = path_join cms_world [''/srv/site/public/uploads'', ''plate.jpg'']"
      by (simp add: cms_world_def)
    show "write_error cms_world ''/srv/site/public/uploads/plate.jpg'' = None"
      by (simp add: cms_world_def)
  qed
  have no: "\<not> existsSync empty_fs ''/srv/site/public/uploads''"
    by (simp add: existsSync_def empty_fs_def)
  have ex: "existsSync stale_fs ''/srv/site/public/uploads''"
    by (simp add: existsSync_def stale_fs_def)
  have above: "dirs_above cms_world ''/srv/site/public/uploads''
                 = [''/'', ''/srv'', ''/srv/site'', ''/srv/site/public'']"
    by (simp add: cms_world_def posix_ancestors_def)
  have old: "files stale_fs ''/srv/site/public/uploads/plate.jpg'' = Some [0x00]"
    by (simp add: stale_fs_def)
  have e: "dirs empty_fs = {}" by (simp add: empty_fs_def)
  obtain evs fs1 where r1:
    "downloadStrapiImage cms_env cms_world empty_fs (Str ''/uploads/plate.jpg'')
       = Some (evs, fs1, Inr (Some (''/uploads/'' @ ''plate.jpg'')))"
    "filter is_network evs
       = [HttpGet (''https://cms.example.com'' @ ''/uploads/plate.jpg'') [] None]"
    "filter is_fs_write evs =
      (if existsSync empty_fs ''/srv/site/public/uploads'' then []
       else [MkdirSync ''/srv/site/public/uploads'']) @
      [WriteFileSync ''/srv/site/public/uploads/plate.jpg'' plate_bytes]"
    "files fs1 = (files empty_fs)(''/srv/site/public/uploads/plate.jpg'' \<mapsto> plate_bytes)"
    "dirs fs1 = (if existsSync empty_fs ''/srv/site/public/uploads'' then dirs empty_fs
                else set (''/srv/site/public/uploads'' #
                          dirs_above cms_world ''/srv/site/public/uploads'') \<union> dirs empty_fs)"
    using inst [of empty_fs] by blast
  have d1: "dirs fs1 = {''/srv/site/public/uploads'', ''/'', ''/srv'', ''/srv/site'',
                  ''/srv/site/public''}"
    unfolding r1(5) above e using no by simp
  have w1: "filter is_fs_write evs = [MkdirSync ''/srv/site/public/uploads'',
              WriteFileSync ''/srv/site/public/uploads/plate.jpg'' plate_bytes]"
    unfolding r1(3) using no by simp
  have f1: "files fs1 ''/srv/site/public/uploads/plate.jpg'' = Some plate_bytes"
    unfolding r1(4) by simp
  have first: "\<exists>evs fs1.
      downloadStrapiImage cms_env cms_world empty_fs (Str ''/uploads/plate.jpg'')
        = Some (evs, fs1, Inr (Some ''/uploads/plate.jpg'')) \<and>
      filter is_network evs = [HttpGet ''https://cms.example.com/uploads/plate.jpg'' [] None] \<and>
      filter is_fs_write evs = [MkdirSync ''/srv/site/public/uploads'',
                                WriteFileSync ''/srv/site/public/uploads/plate.jpg'' plate_bytes] \<and>
      dirs fs1 = {''/srv/site/public/uploads'', ''/'', ''/srv'', ''/srv/site'',
                  ''/srv/site/public''} \<and>
      files fs1 ''/srv/site/public/uploads/plate.jpg'' = Some plate_bytes"
    using r1(1) r1(2) w1 d1 f1 by (intro exI [of _ evs] exI [of _ fs1]) simp
  obtain evs' fs2 where r2:
    "downloadStrapiImage cms_env cms_world stale_fs (Str ''/uploads/plate.jpg'')
       = Some (evs', fs2, Inr (Some (''/uploads/'' @ ''plate.jpg'')))"
    "filter is_network evs'
       = [HttpGet (''https://cms.example.com'' @ ''/uploads/plate.jpg'') [] None]"
    "filter is_fs_write evs' =
      (if existsSync stale_fs ''/srv/site/public/uploads'' then []
       else [MkdirSync ''/srv/site/public/uploads'']) @
      [WriteFileSync ''/srv/site/public/uploads/plate.jpg'' plate_bytes]"
    "files fs2 = (files stale_fs)(''/srv/site/public/uploads/plate.jpg'' \<mapsto> plate_bytes)"
    "dirs fs2 = (if existsSync stale_fs ''/srv/site/public/uploads'' then dirs stale_fs
                else set (''/srv/site/public/uploads'' #
                          dirs_above cms_world ''/srv/site/public/uploads'') \<union> dirs stale_fs)"
    using inst [of stale_fs] by blast
  have d2: "dirs fs2 = dirs stale_fs" unfolding r2(5) using ex by simp
  have w2: "filter is_fs_write evs'
              = [WriteFileSync ''/srv/site/public/uploads/plate.jpg'' plate_bytes]"
    unfolding r2(3) using ex by simp
  have f2: "files fs2 ''/srv/site/public/uploads/plate.jpg'' = Some plate_bytes"
    unfolding r2(4) by simp
  have second: "\<exists>evs fs1.
      downloadStrapiImage cms_env cms_world stale_fs (Str ''/uploads/plate.jpg'')
        = Some (evs, fs1, Inr (Some ''/uploads/plate.jpg'')) \<and>
      filter is_network evs = [HttpGet ''https://cms.example.com/uploads/plate.jpg'' [] None] \<and>
      filter is_fs_write evs = [WriteFileSync ''/srv/site/public/uploads/plate.jpg'' plate_bytes] \<and>
      dirs fs1 = dirs stale_fs \<and>
      files stale_fs ''/srv/site/public/uploads/plate.jpg'' = Some [0x00] \<and>
      files fs1 ''/srv/site/public/uploads/plate.jpg'' = Some plate_bytes"
    using r2(1) r2(2) w2 d2 f2 old by (intro exI [of _ evs'] exI [of _ fs2]) simp
  from first second show ?thesis by (rule conjI)
qed

text \<open>
  C6 as stated, for every download that succeeds, fails: here the image is fetched and
  its bytes are read, then \<^verbatim>\<open>writeFileSync\<close> throws; the \<^verbatim>\<open>catch\<close> block returns
  the remote address, not \<^verbatim>\<open>/uploads/plate.jpg\<close>, and the older file is still there.
\<close>

theorem production_download_counterexample:
  "fetch full_disk_world ''https://cms.example.com/uploads/plate.jpg'' []
     = Settles 35 (Inr plate_response) \<and>
   ok plate_response \<and>
   array_buffer plate_response = Settles 40 (Inr plate_bytes) \<and>
   downloadStrapiImage cms_env full_disk_world stale_fs (Str ''/uploads/plate.jpg'') =
     Some ([HttpGet ''https://cms.example.com/uploads/plate.jpg'' [] None,
            WriteFileSync ''/srv/site/public/uploads/plate.jpg'' plate_bytes,
            ConsoleError [Lit (cross_mark @ '' Error downloading image '' @
                               ''https://cms.example.com/uploads/plate.jpg'' @ '':''),
                          Caught (Thrown ''ENOSPC'')]],
           stale_fs, Inr (Some ''https://cms.example.com/uploads/plate.jpg'')) \<and>
   files stale_fs ''/srv/site/public/uploads/plate.jpg'' = Some [0x00]"
  by (simp add: full_disk_world_def cms_world_def cms_env_def plate_response_def ok_def
      startsWith_def download_try_def save_image_def existsSync_def stale_fs_def Let_def)

subsection \<open>The cases of getStrapiMedia\<close>

text \<open>
  C5, as the code has it: getStrapiMedia is a function of the settings and its argument
  alone; \<^verbatim>\<open>null\<close> and \<^verbatim>\<open>undefined\<close> give \<^verbatim>\<open>null\<close>; an input that begins with
  the four characters \<open>http\<close> is returned unchanged; any other input gives
  \<^verbatim>\<open>null\<close> when no base URL is configured; and otherwise a non-empty input gives the
  base URL followed by the input, so \<^verbatim>\<open>/uploads/plate.jpg\<close> under
  \<^verbatim>\<open>https://cms.example.com\<close> gives \<^verbatim>\<open>https://cms.example.com/uploads/plate.jpg\<close>.
\<close>

theorem getStrapiMedia_cases:
  "getStrapiMedia e Null = None \<and>
   getStrapiMedia e Undefined = None \<and>
   (startsWith u ''http'' \<longrightarrow> getStrapiMedia e (Str u) = Some u) \<and>
   (\<not> startsWith u ''http'' \<and> \<not> truthy (STRAPI_URL e) \<longrightarrow> getStrapiMedia e (Str u) = None) \<and>
   (u \<noteq> [] \<and> \<not> startsWith u ''http'' \<and> STRAPI_URL e = Some b \<and> b \<noteq> [] \<longrightarrow>
      getStrapiMedia e (Str u) = Some (b @ u)) \<and>
   (STRAPI_URL e = Some ''https://cms.example.com'' \<longrightarrow>
      getStrapiMedia e (Str ''/uploads/plate.jpg'') = Some ''https://cms.example.com/uploads/plate.jpg'')"
  using media_fixed [of u e] by (auto simp add: startsWith_def)

text \<open>One input for each of the three cases that have a condition.\<close>

theorem getStrapiMedia_cases_witness:
  "startsWith ''https://cdn.example.com/x.jpg'' ''http'' \<and>
   getStrapiMedia cms_env (Str ''https://cdn.example.com/x.jpg'') = Some ''https://cdn.example.com/x.jpg'' \<and>
   \<not> startsWith ''/uploads/plate.jpg'' ''http'' \<and> \<not> truthy (STRAPI_URL unset_env) \<and>
   getStrapiMedia unset_env (Str ''/uploads/plate.jpg'') = None \<and>
   STRAPI_URL cms_env = Some ''https://cms.example.com'' \<and>
   getStrapiMedia cms_env (Str ''/uploads/plate.jpg'') = Some ''https://cms.example.com/uploads/plate.jpg''"
proof -
  have a: "startsWith ''https://cdn.example.com/x.jpg'' ''http''"
    and b: "\<not> startsWith ''/uploads/plate.jpg'' ''http''"
    by (simp_all add: startsWith_def)
  have c: "\<not> truthy (STRAPI_URL unset_env)"
    and d: "STRAPI_URL cms_env = Some ''https://cms.example.com''"
    by (simp_all add: unset_env_def cms_env_def)
  show ?thesis
    using a b c d
      getStrapiMedia_cases [of cms_env "''https://cdn.example.com/x.jpg''"]
      getStrapiMedia_cases [of unset_env "''/uploads/plate.jpg''"]
      getStrapiMedia_cases [of cms_env "''/uploads/plate.jpg''" "''https://cms.example.com''"]
    by simp
qed

text \<open>
  C5 as stated, with "absolute" meaning scheme-qualified, fails: an \<open>ftp\<close> address
  has a scheme and is not returned unchanged, the base URL is put in front of it.
\<close>

theorem getStrapiMedia_scheme_counterexample:
  "scheme_qualified ''ftp://files.example.com/plate.jpg'' \<and>
   getStrapiMedia cms_env (Str ''ftp://files.example.com/plate.jpg'')
     \<noteq> Some ''ftp://files.example.com/plate.jpg'' \<and>
   getStrapiMedia cms_env (Str ''ftp://files.example.com/plate.jpg'')
     = Some ''https://cms.example.comftp://files.example.com/plate.jpg''"
  by (simp add: scheme_qualified_def is_alpha_def is_scheme_char_def cms_env_def startsWith_def)

subsection \<open>Development mode and the empty string\<close>

text \<open>
  C7: when \<^verbatim>\<open>DEV\<close> is set (and also when neither \<^verbatim>\<open>PROD\<close> nor the production
  \<^verbatim>\<open>MODE\<close> is), downloadStrapiImage returns, for every input, exactly what
  getStrapiMedia returns for it, leaves the file system as it was, and neither requests
  nor writes anything.
\<close>

theorem dev_mode_bypass:
  assumes "DEV e \<or> \<not> (PROD' e \<or> MODE e = ''production'')"
  shows "\<exists>evs. downloadStrapiImage e w fs x = Some (evs, fs, Inr (getStrapiMedia e x)) \<and> no_io evs"
  using assms by (cases x) (auto simp add: no_io_def Let_def)

text \<open>The development settings, on a relative path.\<close>

theorem dev_mode_bypass_witness:
  "DEV dev_env \<and>
   downloadStrapiImage dev_env cms_world empty_fs (Str ''/uploads/plate.jpg'')
     = Some ([], empty_fs, Inr (Some ''https://cms.example.com/uploads/plate.jpg'')) \<and>
   getStrapiMedia dev_env (Str ''/uploads/plate.jpg'')
     = Some ''https://cms.example.com/uploads/plate.jpg''"
proof -
  have h: "DEV dev_env" by (simp add: dev_env_def)
  have g: "getStrapiMedia dev_env (Str ''/uploads/plate.jpg'')
     = Some ''https://cms.example.com/uploads/plate.jpg''"
    by (simp add: dev_env_def startsWith_def)
  have "fst (the (downloadStrapiImage dev_env cms_world empty_fs (Str ''/uploads/plate.jpg''))) = []"
    by (simp add: dev_env_def)
  then show ?thesis
    using h g dev_mode_bypass [of dev_env cms_world empty_fs "Str ''/uploads/plate.jpg''"]
    by auto
qed

text \<open>
  C10: the empty string is treated as an absent input. getStrapiMedia gives
  \<^verbatim>\<open>null\<close> for it under every configuration, and downloadStrapiImage does for it
  exactly what it does for \<^verbatim>\<open>undefined\<close> and \<^verbatim>\<open>null\<close> in every mode: it returns
  \<^verbatim>\<open>null\<close>, with no request and no write, and the file system unchanged.
\<close>

theorem empty_string_is_absent:
  "getStrapiMedia e (Str []) = None \<and>
   getStrapiMedia e (Str []) = getStrapiMedia e Undefined \<and>
   downloadStrapiImage e w fs (Str []) = downloadStrapiImage e w fs Undefined \<and>
   downloadStrapiImage e w fs (Str []) = downloadStrapiImage e w fs Null \<and>
   (\<exists>evs. downloadStrapiImage e w fs (Str []) = Some (evs, fs, Inr None) \<and> no_io evs)"
  by (simp add: no_io_def)

text \<open>Production and development settings: only the printed line differs.\<close>

theorem empty_string_is_absent_witness:
  "getStrapiMedia cms_env (Str []) = None \<and>
   downloadStrapiImage cms_env cms_world empty_fs (Str []) = Some ([], empty_fs, Inr None) \<and>
   downloadStrapiImage dev_env cms_world empty_fs (Str []) =
     Some ([ConsoleLog [Lit (info_sign @ ''  No image URL provided, returning null'')]],
           empty_fs, Inr None)"
  using empty_string_is_absent [of cms_env cms_world empty_fs]
    empty_string_is_absent [of dev_env cms_world empty_fs]
  by (simp add: cms_env_def dev_env_def)

subsection \<open>The prefix test in both functions\<close>

lemma download_try_hangs:
  assumes "download_try w fs a = None"
  shows "case fetch w a [] of
           Never \<Rightarrow> True
         | Settles t (Inl x) \<Rightarrow> False
         | Settles t (Inr r) \<Rightarrow> ok r \<and> array_buffer r = Never"
proof (cases "fetch w a []")
  case Never
  then show ?thesis by simp
next
  case (Settles t res)
  show ?thesis
  proof (cases res)
    case (Inl x)
    then show ?thesis using assms Settles
      by (auto simp add: download_try_def Let_def split: sum.splits if_splits)
  next
    case (Inr r)
    have "ok r \<and> array_buffer r = Never"
    proof (cases "array_buffer r")
      case Never
      then show ?thesis using assms Settles Inr
        by (auto simp add: download_try_def Let_def split: sum.splits if_splits)
    next
      case (Settles t' b)
      then show ?thesis using assms \<open>fetch w a [] = Settles t res\<close> Inr
        by (auto simp add: download_try_def Let_def
            split: sum.splits if_splits option.splits prod.splits)
    qed
    then show ?thesis using Settles Inr by simp
  qed
qed

lemma download_try_tight:
  assumes "download_try w fs a = Some (evs, fs1, r)"
  shows "((r = Inr a \<or> isl r) \<and>
          (filter is_network evs = [] \<or> filter is_network evs = [HttpGet a [] None])) \<or>
         (\<exists>fn. filename_of w a = Some fn \<and> r = Inr (''/uploads/'' @ fn) \<and>
               filter is_network evs = [HttpGet a [] None])"
proof (cases "filename_of w a")
  case None
  show ?thesis
  proof (cases "url_pathname w a")
    case (Inl x)
    with assms have "r = Inl x" "evs = []" by (simp_all add: download_try_def)
    then show ?thesis by simp
  next
    case (Inr p)
    then have "\<not> truthy (pop (split_slash p))"
      using None by (auto simp add: filename_of_def split: option.splits if_splits)
    with assms Inr have "r = Inr a" "filter is_network evs = []"
      by (auto simp add: download_try_def Let_def)
    then show ?thesis by simp
  qed
next
  case (Some fn)
  then obtain p where p: "url_pathname w a = Inr p" "pop (split_slash p) = Some fn" "fn \<noteq> []"
    by (auto simp add: filename_of_def split: sum.splits option.splits if_splits)
  show ?thesis using download_try_named [OF p assms] Some by auto
qed

lemma download_works:
  assumes "u \<noteq> []" and "a = (if startsWith u ''http'' then u else tmpl (STRAPI_URL e) @ u)"
    and "getStrapiMedia e (Str u) = Some a"
  shows "works_with w a (downloadStrapiImage e w fs (Str u))"
proof (cases "\<not> DEV e \<and> (PROD' e \<or> MODE e = ''production'')")
  case False
  then have "downloadStrapiImage e w fs (Str u) = Some ([], fs, Inr (Some a))"
    using assms by (auto simp add: Let_def)
  then show ?thesis by simp
next
  case True
  show ?thesis
  proof (cases "download_try w fs a")
    case None
    then have "downloadStrapiImage e w fs (Str u) = None"
      using True assms by (simp add: Let_def)
    then show ?thesis using download_try_hangs [OF None] by simp
  next
    case (Some res)
    obtain evs fs1 r where res: "res = (evs, fs1, r)" by (cases res) auto
    note v = download_try_tight [OF Some [unfolded res]]
    show ?thesis
    proof (cases r)
      case (Inl x)
      then have "downloadStrapiImage e w fs (Str u) =
          Some (evs @ [ConsoleError [Lit (cross_mark @ '' Error downloading image '' @ a @ '':''),
                                     Caught x]], fs1, Inr (Some a))"
        using True assms Some res by (simp add: Let_def)
      then show ?thesis using v Inl by auto
    next
      case (Inr s)
      then have "downloadStrapiImage e w fs (Str u) = Some (evs, fs1, Inr (Some s))"
        using True assms Some res by (simp add: Let_def)
      then show ?thesis using v Inr by auto
    qed
  qed
qed

text \<open>
  C9, as the code has it: the test for an absolute address is the prefix \<open>http\<close>.
  An input that begins with \<open>http\<close>, an address or not, is returned unchanged by
  getStrapiMedia, and downloadStrapiImage works with the input itself, nothing put in
  front. A non-empty input that does not begin with \<open>http\<close>, under a configured
  (non-empty) base URL, gets the base URL in front in getStrapiMedia, and
  downloadStrapiImage works with that prefixed address: it is the address requested, the
  address whose file name is used, and the address returned as the fallback. The empty
  string gets nothing in front: both functions return \<^verbatim>\<open>null\<close> for it.
\<close>

theorem absoluteness_is_http_prefix:
  "(startsWith u ''http'' \<longrightarrow>
      getStrapiMedia e (Str u) = Some u \<and> works_with w u (downloadStrapiImage e w fs (Str u))) \<and>
   (u \<noteq> [] \<and> \<not> startsWith u ''http'' \<and> STRAPI_URL e = Some b \<and> b \<noteq> [] \<longrightarrow>
      getStrapiMedia e (Str u) = Some (b @ u) \<and>
      works_with w (b @ u) (downloadStrapiImage e w fs (Str u))) \<and>
   getStrapiMedia e (Str []) = None \<and>
   (\<exists>evs. downloadStrapiImage e w fs (Str []) = Some (evs, fs, Inr None) \<and> no_io evs)"
proof (intro conjI impI)
  assume h: "startsWith u ''http''"
  then have n: "u \<noteq> []" by (auto simp add: startsWith_def)
  show g: "getStrapiMedia e (Str u) = Some u" using h by (rule media_fixed)
  show "works_with w u (downloadStrapiImage e w fs (Str u))"
    using download_works [OF n _ g] h by simp
next
  assume h: "u \<noteq> [] \<and> \<not> startsWith u ''http'' \<and> STRAPI_URL e = Some b \<and> b \<noteq> []"
  then show g: "getStrapiMedia e (Str u) = Some (b @ u)" by simp
  show "works_with w (b @ u) (downloadStrapiImage e w fs (Str u))"
    using download_works [of u "b @ u" e w fs] g h by simp
next
  show "getStrapiMedia e (Str []) = None" by simp
  show "\<exists>evs. downloadStrapiImage e w fs (Str []) = Some (evs, fs, Inr None) \<and> no_io evs"
    by (simp add: no_io_def)
qed

text \<open>
  \<^verbatim>\<open>httpfoo/bar\<close> passes as absolute and comes back as it is from both functions;
  \<^verbatim>\<open>HTTP://cdn.example.com/x.jpg\<close> does not pass; and for \<^verbatim>\<open>/uploads/plate.jpg\<close>
  the production download requests the prefixed address.
\<close>

theorem absoluteness_is_http_prefix_witness:
  "startsWith ''httpfoo/bar'' ''http'' \<and>
   getStrapiMedia cms_env (Str ''httpfoo/bar'') = Some ''httpfoo/bar'' \<and>
   works_with cms_world ''httpfoo/bar''
     (downloadStrapiImage cms_env cms_world empty_fs (Str ''httpfoo/bar'')) \<and>
   snd (snd (the (downloadStrapiImage cms_env cms_world empty_fs (Str ''httpfoo/bar''))))
     = Inr (Some ''httpfoo/bar'') \<and>
   \<not> startsWith ''HTTP://cdn.example.com/x.jpg'' ''http'' \<and>
   getStrapiMedia cms_env (Str ''HTTP://cdn.example.com/x.jpg'')
     = Some ''https://cms.example.comHTTP://cdn.example.com/x.jpg'' \<and>
   \<not> startsWith ''/uploads/plate.jpg'' ''http'' \<and>
   works_with cms_world ''https://cms.example.com/uploads/plate.jpg''
     (downloadStrapiImage cms_env cms_world stale_fs (Str ''/uploads/plate.jpg'')) \<and>
   filter is_network
     (fst (the (downloadStrapiImage cms_env cms_world stale_fs (Str ''/uploads/plate.jpg''))))
     = [HttpGet ''https://cms.example.com/uploads/plate.jpg'' [] None]"
proof -
  have a: "startsWith ''httpfoo/bar'' ''http''"
    and b: "\<not> startsWith ''HTTP://cdn.example.com/x.jpg'' ''http''"
    and c: "\<not> startsWith ''/uploads/plate.jpg'' ''http''"
    by (simp_all add: startsWith_def)
  have d: "STRAPI_URL cms_env = Some ''https://cms.example.com''" by (simp add: cms_env_def)
  have e: "snd (snd (the (downloadStrapiImage cms_env cms_world empty_fs (Str ''httpfoo/bar''))))
     = Inr (Some ''httpfoo/bar'')"
    by (simp add: cms_env_def cms_world_def startsWith_def download_try_def)
  have f: "filter is_network
     (fst (the (downloadStrapiImage cms_env cms_world stale_fs (Str ''/uploads/plate.jpg''))))
     = [HttpGet ''https://cms.example.com/uploads/plate.jpg'' [] None]"
    by (simp add: cms_env_def cms_world_def startsWith_def download_try_def save_image_def
        plate_response_def ok_def existsSync_def stale_fs_def Let_def)
  show ?thesis
    using a b c d e f
      absoluteness_is_http_prefix [where u = "''httpfoo/bar''" and e = cms_env
        and w = cms_world and fs = empty_fs]
      absoluteness_is_http_prefix [where u = "''HTTP://cdn.example.com/x.jpg''" and e = cms_env
        and b = "''https://cms.example.com''" and w = cms_world and fs = empty_fs]
      absoluteness_is_http_prefix [where u = "''/uploads/plate.jpg''" and e = cms_env
        and b = "''https://cms.example.com''" and w = cms_world and fs = stale_fs]
    by simp
qed

text \<open>
  C9 as stated, for any string that does not begin with \<open>http\<close>, fails at the empty
  string: with a base URL configured, nothing is put in front of it, the result is
  \<^verbatim>\<open>null\<close>.
\<close>

theorem absoluteness_counterexample:
  "\<not> startsWith [] ''http'' \<and>
   STRAPI_URL cms_env = Some ''https://cms.example.com'' \<and>
   getStrapiMedia cms_env (Str []) \<noteq> Some (''https://cms.example.com'' @ []) \<and>
   getStrapiMedia cms_env (Str []) = None \<and>
   downloadStrapiImage cms_env cms_world empty_fs (Str []) = Some ([], empty_fs, Inr None)"
  by (simp add: startsWith_def cms_env_def)

subsection \<open>A production build with no base URL\<close>

text \<open>
  C4 at a production build with no base URL and the input \<^verbatim>\<open>/uploads/plate.jpg\<close>:
  the address is built from the unset setting without the guard getStrapiMedia has,
  \<^verbatim>\<open>new URL\<close> rejects it, and the \<^verbatim>\<open>catch\<close> block returns
  \<^verbatim>\<open>undefined/uploads/plate.jpg\<close>: not \<^verbatim>\<open>null\<close>, not a path under
  \<^verbatim>\<open>/uploads/\<close>, not an absolute address. getStrapiMedia returns \<^verbatim>\<open>null\<close> for the
  same input.
\<close>

theorem unconfigured_production_download:
  "downloadStrapiImage unset_env cms_world empty_fs (Str ''/uploads/plate.jpg'') =
     Some ([ConsoleError [Lit (cross_mark @ '' Error downloading image '' @
                               ''undefined/uploads/plate.jpg'' @ '':''),
                          Caught (Thrown ''TypeError: Invalid URL'')]],
           empty_fs, Inr (Some ''undefined/uploads/plate.jpg'')) \<and>
   \<not> usable_result (Some ''undefined/uploads/plate.jpg'') \<and>
   getStrapiMedia unset_env (Str ''/uploads/plate.jpg'') = None"
  by (simp add: unset_env_def cms_world_def startsWith_def download_try_def
      scheme_qualified_def)

end
